theory Spec2Isabelle
  imports Main
begin

section \<open>Python string primitives\<close>

text \<open>
  Source strings are modelled as \<^typ>\<open>string\<close> over ASCII text: the character classes
  below are the ASCII part of Python's Unicode classes.  Characters outside ASCII are
  treated as plain symbols (neither letter, digit nor whitespace).
\<close>

definition is_upper :: "char \<Rightarrow> bool" where
  "is_upper c = (65 \<le> (of_char c :: nat) \<and> (of_char c :: nat) \<le> 90)"

definition is_lower :: "char \<Rightarrow> bool" where
  "is_lower c = (97 \<le> (of_char c :: nat) \<and> (of_char c :: nat) \<le> 122)"

definition is_digit :: "char \<Rightarrow> bool" where
  "is_digit c = (48 \<le> (of_char c :: nat) \<and> (of_char c :: nat) \<le> 57)"

text \<open>\<open>str.isspace\<close> on ASCII: TAB, LF, VT, FF, CR, the separators 0x1C..0x1F and the blank.\<close>

definition is_space :: "char \<Rightarrow> bool" where
  "is_space c = ((9 \<le> (of_char c :: nat) \<and> (of_char c :: nat) \<le> 13)
                 \<or> (28 \<le> (of_char c :: nat) \<and> (of_char c :: nat) \<le> 32))"

text \<open>The class \<open>\w\<close> of the \<open>re\<close> module: letters, digits and the underscore.\<close>

definition is_word_char :: "char \<Rightarrow> bool" where
  "is_word_char c = (is_upper c \<or> is_lower c \<or> is_digit c \<or> c = CHR ''_'')"

definition lower_char :: "char \<Rightarrow> char" where
  "lower_char c = (if is_upper c then char_of ((of_char c :: nat) + 32) else c)"

text \<open>\<open>s.lower()\<close>\<close>

definition lower :: "string \<Rightarrow> string" where
  "lower s = map lower_char s"

text \<open>\<open>s.lstrip()\<close>, \<open>s.rstrip()\<close>, \<open>s.strip()\<close> without argument.\<close>

definition lstrip :: "string \<Rightarrow> string" where
  "lstrip s = dropWhile is_space s"

definition rstrip :: "string \<Rightarrow> string" where
  "rstrip s = rev (dropWhile is_space (rev s))"

definition strip :: "string \<Rightarrow> string" where
  "strip s = rstrip (lstrip s)"

text \<open>\<open>s.rstrip(chars)\<close>\<close>

definition rstrip_chars :: "string \<Rightarrow> string \<Rightarrow> string" where
  "rstrip_chars chars s = rev (dropWhile (\<lambda>c. c \<in> set chars) (rev s))"

text \<open>\<open>s.startswith(p)\<close>\<close>

definition startswith :: "string \<Rightarrow> string \<Rightarrow> bool" where
  "startswith s p = (take (length p) s = p)"

text \<open>\<open>p in s\<close> on strings: \<open>p\<close> occurs in \<open>s\<close> as a contiguous substring.\<close>

fun contains :: "string \<Rightarrow> string \<Rightarrow> bool" where
  "contains [] p = (p = [])"
| "contains (c # cs) p = (startswith (c # cs) p \<or> contains cs p)"

text \<open>
  \<open>s.split(sep)\<close> for a non-empty separator: the pieces between the non-overlapping
  occurrences of \<open>sep\<close>, found from the left.  Python raises \<open>ValueError\<close> on an empty
  separator; the parser below only passes non-empty ones, and the model returns the
  unsplit string there.
\<close>

function split_acc :: "string \<Rightarrow> string \<Rightarrow> string \<Rightarrow> string list" where
  "split_acc sep acc [] = [rev acc]"
| "split_acc sep acc (c # cs) =
     (if sep \<noteq> [] \<and> startswith (c # cs) sep
      then rev acc # split_acc sep [] (drop (length sep - 1) cs)
      else split_acc sep (c # acc) cs)"
  by pat_completeness auto
termination
  by (relation "measure (\<lambda>(sep, acc, s). length s)") auto

definition split :: "string \<Rightarrow> string \<Rightarrow> string list" where
  "split sep s = split_acc sep [] s"

text \<open>\<open>s.split()\<close> without argument: the maximal runs of non-whitespace characters.\<close>

fun words_acc :: "string \<Rightarrow> string \<Rightarrow> string list" where
  "words_acc acc [] = (if acc = [] then [] else [rev acc])"
| "words_acc acc (c # cs) =
     (if is_space c
      then (if acc = [] then words_acc [] cs else rev acc # words_acc [] cs)
      else words_acc (c # acc) cs)"

definition split_ws :: "string \<Rightarrow> string list" where
  "split_ws s = words_acc [] s"

text \<open>\<open>sep.join(xs)\<close>\<close>

fun join :: "string \<Rightarrow> string list \<Rightarrow> string" where
  "join sep [] = []"
| "join sep [x] = x"
| "join sep (x # y # ys) = x @ sep @ join sep (y # ys)"

text \<open>\<open>s.replace(a, b)\<close> for single characters.\<close>

definition replace_char :: "char \<Rightarrow> char \<Rightarrow> string \<Rightarrow> string" where
  "replace_char a b s = map (\<lambda>c. if c = a then b else c) s"

text \<open>
  \<open>list(set(xs))\<close>: the elements of \<open>xs\<close> without repetition.  Python leaves the order
  of the result unspecified; the model keeps the order of last occurrence, and the
  theorems below speak about membership and distinctness only.
\<close>

definition list_set :: "'a list \<Rightarrow> 'a list" where
  "list_set xs = remdups xs"


section \<open>User profile (\<open>models/user_profile.py\<close>)\<close>

text \<open>
  The fields of \<open>UserProfile\<close>.  Time stamps are readings of a clock passed in by the
  caller (\<open>datetime.now()\<close> in the source); the floating-point \<open>weight\<close> is left out.
\<close>

record UserProfile =
  name :: string
  age :: "int option"
  allergies :: "string list"
  medications :: "string list"
  medical_conditions :: "string list"
  emergency_contact :: string
  created_at :: nat
  updated_at :: nat

text \<open>\<open>xs or []\<close> for an optional list argument.\<close>

definition or_empty :: "'a list option \<Rightarrow> 'a list" where
  "or_empty xs = (case xs of None \<Rightarrow> [] | Some ys \<Rightarrow> ys)"

text \<open>\<open>UserProfile.__init__\<close>: the lists are stored as they are given.\<close>

definition UserProfile_init ::
  "string \<Rightarrow> int option \<Rightarrow> string list option \<Rightarrow> string list option \<Rightarrow>
   string list option \<Rightarrow> string \<Rightarrow> nat option \<Rightarrow> nat \<Rightarrow> UserProfile" where
  "UserProfile_init nm ag als meds conds contact created now =
     \<lparr> name = nm, age = ag, allergies = or_empty als, medications = or_empty meds,
       medical_conditions = or_empty conds, emergency_contact = contact,
       created_at = (case created of None \<Rightarrow> now | Some t \<Rightarrow> t),
       updated_at = now \<rparr>"

text \<open>\<open>UserProfile.add_allergy\<close>\<close>

definition add_allergy :: "string \<Rightarrow> nat \<Rightarrow> UserProfile \<Rightarrow> UserProfile" where
  "add_allergy allergy now self =
     (if allergy \<noteq> [] \<and> lower allergy \<notin> set (map lower (allergies self))
      then self\<lparr> allergies := allergies self @ [allergy], updated_at := now \<rparr>
      else self)"

text \<open>A list of declared names that holds no two entries equal up to case.\<close>

definition case_distinct :: "string list \<Rightarrow> bool" where
  "case_distinct xs = distinct (map lower xs)"



section \<open>Ingredient parser (\<open>services/ingredient_analyzer.py\<close>)\<close>

subsection \<open>The regular expressions of \<open>processing_patterns\<close>\<close>

text \<open>
  A pattern is modelled by its matcher: given the character before the current position
  (\<open>None\<close> at the start of the text) and the rest of the text, it returns the length of
  the match that \<open>re\<close> finds at this position, if there is one.
\<close>

type_synonym matcher = "char option \<Rightarrow> string \<Rightarrow> nat option"

text \<open>
  \<open>re.sub(pattern, '', text)\<close>: scanning from the left, a match is dropped and the scan
  goes on behind it; where the pattern does not match, the character is kept.
\<close>

function re_sub_empty :: "matcher \<Rightarrow> char option \<Rightarrow> string \<Rightarrow> string" where
  "re_sub_empty m prev [] = []"
| "re_sub_empty m prev (c # cs) =
     (case m prev (c # cs) of
        None \<Rightarrow> c # re_sub_empty m (Some c) cs
      | Some k \<Rightarrow>
          if k = 0 then c # re_sub_empty m (Some c) cs
          else re_sub_empty m (Some (last (take k (c # cs)))) (drop (k - 1) cs))"
  by pat_completeness auto
termination
  by (relation "measure (\<lambda>(m, prev, s). length s)") auto

text \<open>\<open>percentage\<close>: \<^verbatim>\<open>\b\d+\.?\d*%\<close>\<close>

definition match_percentage :: matcher where
  "match_percentage prev s =
     (let d1 = takeWhile is_digit s; r1 = dropWhile is_digit s in
      if d1 = [] \<or> (case prev of None \<Rightarrow> False | Some p \<Rightarrow> is_word_char p) then None
      else (case r1 of
              [] \<Rightarrow> None
            | c # r2 \<Rightarrow>
                if c = CHR ''%'' then Some (length d1 + 1)
                else if c = CHR ''.'' then
                  (let d2 = takeWhile is_digit r2; r3 = dropWhile is_digit r2 in
                   case r3 of
                     [] \<Rightarrow> None
                   | e # _ \<Rightarrow> if e = CHR ''%'' then Some (length d1 + 1 + length d2 + 1)
                              else None)
                else None))"

text \<open>\<open>parentheses\<close>: \<^verbatim>\<open>\([^)]*\)\<close> and \<open>brackets\<close>: \<^verbatim>\<open>\[[^\]]*\]\<close>\<close>

definition match_delimited :: "char \<Rightarrow> char \<Rightarrow> matcher" where
  "match_delimited opening closing prev s =
     (case s of
        [] \<Rightarrow> None
      | c # r \<Rightarrow>
          if c = opening \<and> closing \<in> set r
          then Some (length (takeWhile (\<lambda>x. x \<noteq> closing) r) + 2)
          else None)"

text \<open>\<open>additives\<close>: \<^verbatim>\<open>E\d{3,4}\<close>, matched with \<open>re.IGNORECASE\<close>\<close>

definition match_additive :: matcher where
  "match_additive prev s =
     (case s of
        [] \<Rightarrow> None
      | c # r \<Rightarrow>
          if lower_char c = CHR ''e''
          then (let n = length (takeWhile is_digit (take 4 r)) in
                if 3 \<le> n then Some (n + 1) else None)
          else None)"

text \<open>A literal word matched with \<open>re.IGNORECASE\<close> at the start of \<open>s\<close>.\<close>

definition startswith_ci :: "string \<Rightarrow> string \<Rightarrow> bool" where
  "startswith_ci s w = (lower (take (length w) s) = lower w)"

text \<open>\<open>preservatives\<close>: \<^verbatim>\<open>(preservative|antioxidant|emulsifier|stabilizer):\s*\<close>\<close>

fun match_label :: "string list \<Rightarrow> matcher" where
  "match_label [] prev s = None"
| "match_label (w # ws) prev s =
     (if startswith_ci s (w @ '':'')
      then Some (length w + 1 + length (takeWhile is_space (drop (length w + 1) s)))
      else match_label ws prev s)"

text \<open>\<open>allergen_warnings\<close>: \<^verbatim>\<open>(may contain|contains|produced in facility)\<close>\<close>

fun match_alternatives :: "string list \<Rightarrow> matcher" where
  "match_alternatives [] prev s = None"
| "match_alternatives (w # ws) prev s =
     (if startswith_ci s w then Some (length w) else match_alternatives ws prev s)"

text \<open>The dictionary \<open>processing_patterns\<close>, in its insertion order.\<close>

definition processing_patterns :: "(string \<times> matcher) list" where
  "processing_patterns =
     [(''percentage'', match_percentage),
      (''parentheses'', match_delimited (CHR ''('') (CHR '')'')),
      (''brackets'', match_delimited (CHR ''['') (CHR '']'')),
      (''additives'', match_additive),
      (''preservatives'',
         match_label [''preservative'', ''antioxidant'', ''emulsifier'', ''stabilizer'']),
      (''allergen_warnings'',
         match_alternatives [''may contain'', ''contains'', ''produced in facility''])]"

subsection \<open>\<open>_parse_ingredients\<close>\<close>

text \<open>
  The separators as the source writes them: \<^verbatim>\<open>'\\n'\<close> and \<^verbatim>\<open>'\\r'\<close> are the
  two-character strings backslash-n and backslash-r.
\<close>

definition separators :: "string list" where
  "separators = ['','', '';'', [CHR 0x5C, CHR ''n''], [CHR 0x5C, CHR ''r''], ''|'']"

text \<open>One round of the splitting loop: every piece is split on \<open>separator\<close> and stripped.\<close>

definition split_round :: "string \<Rightarrow> string list \<Rightarrow> string list" where
  "split_round separator ingredients =
     concat (map (\<lambda>ingredient. map strip (split separator ingredient)) ingredients)"

text \<open>\<^verbatim>\<open>re.sub(r'^[\d\.\-\s]*', '', ingredient)\<close>\<close>

definition strip_leading_numbering :: "string \<Rightarrow> string" where
  "strip_leading_numbering s =
     dropWhile (\<lambda>c. is_digit c \<or> c = CHR ''.'' \<or> c = CHR ''-'' \<or> is_space c) s"

text \<open>The body of the cleaning loop: the tokens (none or one) a piece contributes.\<close>

definition clean_ingredient :: "string \<Rightarrow> string list" where
  "clean_ingredient piece =
     (let ingredient = strip piece in
      if ingredient \<noteq> [] \<and> length ingredient > 1
      then (let ingredient = strip_leading_numbering ingredient;
                ingredient = rstrip_chars ''.,;:'' ingredient
            in if ingredient \<noteq> [] then [ingredient] else [])
      else [])"

definition parse_ingredients :: "string \<Rightarrow> string list" where
  "parse_ingredients ingredients_text =
     (if ingredients_text = [] \<or> strip ingredients_text = [] then []
      else (let text = strip (lower ingredients_text);
                text = fold (\<lambda>(pattern_name, pattern) t. re_sub_empty pattern None t)
                         processing_patterns text;
                ingredients = fold split_round separators [text]
            in concat (map clean_ingredient ingredients)))"

text \<open>The canonical joined form of a token sequence.\<close>

definition join_tokens :: "string list \<Rightarrow> string" where
  "join_tokens tokens = join '', '' tokens"


section \<open>Allergy checker (\<open>models/allergy_checker.py\<close>)\<close>

text \<open>
  The three tables of \<open>AllergyChecker.__init__\<close>.  Dictionaries are association lists in
  insertion order, the order in which the source iterates over them.  The attribute
  \<open>self.cross_contamination_risks\<close> is called \<open>cross_contamination_table\<close> here, since
  the result dictionary has a key of the same name.
\<close>

record AllergyChecker =
  allergen_database :: "(string \<times> string list) list"
  severity_levels :: "(string \<times> string) list"
  cross_contamination_table :: "(string \<times> string list) list"

definition AllergyChecker_init :: AllergyChecker where
  "AllergyChecker_init =
     \<lparr> allergen_database =
         [(''dairy'', [''milk'', ''cheese'', ''butter'', ''cream'', ''yogurt'', ''lactose'',
                       ''casein'', ''whey'', ''lactoglobulin'', ''lactalbumin'']),
          (''eggs'', [''egg'', ''eggs'', ''albumin'', ''globulin'', ''lecithin'',
                      ''lysozyme'', ''mayonnaise'', ''meringue'', ''ovalbumin'']),
          (''peanuts'', [''peanut'', ''peanuts'', ''groundnut'', ''ground nut'',
                         ''arachis oil'', ''peanut oil'', ''peanut butter'']),
          (''tree_nuts'', [''almond'', ''brazil nut'', ''cashew'', ''hazelnut'', ''pecan'',
                           ''pistachio'', ''walnut'', ''macadamia'', ''pine nut'', ''chestnut'']),
          (''soy'', [''soy'', ''soya'', ''soybean'', ''tofu'', ''miso'', ''tempeh'',
                     ''soy sauce'', ''lecithin'', ''edamame'']),
          (''wheat'', [''wheat'', ''flour'', ''gluten'', ''semolina'', ''spelt'',
                       ''kamut'', ''bulgur'', ''couscous'', ''seitan'']),
          (''fish'', [''fish'', ''salmon'', ''tuna'', ''cod'', ''sardine'', ''anchovy'',
                      ''mackerel'', ''bass'', ''trout'', ''fish sauce'']),
          (''shellfish'', [''crab'', ''lobster'', ''shrimp'', ''prawn'', ''scallop'',
                           ''oyster'', ''mussel'', ''clam'', ''crayfish'', ''langoustine'']),
          (''sesame'', [''sesame'', ''tahini'', ''sesame oil'', ''sesame seed'', ''gomasio''])],
       severity_levels =
         [(''peanuts'', ''high''), (''tree_nuts'', ''high''), (''shellfish'', ''high''),
          (''fish'', ''moderate''), (''eggs'', ''moderate''), (''dairy'', ''moderate''),
          (''soy'', ''low''), (''wheat'', ''moderate''), (''sesame'', ''moderate'')],
       cross_contamination_table =
         [(''peanuts'', [''tree_nuts'', ''soy'']),
          (''tree_nuts'', [''peanuts'']),
          (''dairy'', [''eggs'']),
          (''wheat'', [''oats'', ''barley'', ''rye''])] \<rparr>"

text \<open>\<open>d.get(key, [])\<close> on a dictionary of lists.\<close>

definition get_list :: "(string \<times> 'a list) list \<Rightarrow> string \<Rightarrow> 'a list" where
  "get_list d key = (case map_of d key of None \<Rightarrow> [] | Some v \<Rightarrow> v)"

text \<open>
  The category search that \<open>_find_allergen_matches\<close> and \<open>_check_cross_contamination\<close>
  both write out: the first category, in dictionary order, one of whose allergen names
  contains the user's term or is contained in it.  The category name itself is not
  compared.
\<close>

fun find_category :: "(string \<times> string list) list \<Rightarrow> string \<Rightarrow> string option" where
  "find_category [] user_allergy_lower = None"
| "find_category ((category, allergens) # rest) user_allergy_lower =
     (if list_ex (\<lambda>allergen. contains allergen user_allergy_lower
                             \<or> contains user_allergy_lower allergen) allergens
      then Some category
      else find_category rest user_allergy_lower)"

text \<open>The second loop of \<open>_find_allergen_matches\<close>, over the ingredients and the allergens.\<close>

fun category_matches :: "string list \<Rightarrow> string list \<Rightarrow> string list \<Rightarrow> string list" where
  "category_matches category_allergens matches [] = matches"
| "category_matches category_allergens matches (ingredient # ingredients) =
     category_matches category_allergens
       (if list_ex (\<lambda>allergen. contains ingredient allergen \<or> contains allergen ingredient)
             category_allergens
           \<and> ingredient \<notin> set matches
        then matches @ [ingredient] else matches)
       ingredients"

text \<open>\<open>_find_allergen_matches\<close>\<close>

definition find_allergen_matches ::
  "AllergyChecker \<Rightarrow> string \<Rightarrow> string list \<Rightarrow> string list" where
  "find_allergen_matches self user_allergy ingredients =
     (let user_allergy_lower = strip (lower user_allergy);
          matches = filter (\<lambda>ingredient. contains ingredient user_allergy_lower
                                          \<or> contains user_allergy_lower ingredient) ingredients
      in case find_category (allergen_database self) user_allergy_lower of
           None \<Rightarrow> matches
         | Some allergen_category \<Rightarrow>
             if allergen_category = [] then matches
             else category_matches (get_list (allergen_database self) allergen_category)
                    matches ingredients)"

text \<open>\<open>_get_allergen_severity\<close>\<close>

fun severity_lookup ::
  "(string \<times> string list) list \<Rightarrow> (string \<times> string) list \<Rightarrow> string \<Rightarrow> string" where
  "severity_lookup db [] allergen_lower = ''moderate''"
| "severity_lookup db ((severity_allergen, severity) # rest) allergen_lower =
     (if contains severity_allergen allergen_lower
         \<or> contains allergen_lower severity_allergen
         \<or> list_ex (\<lambda>db_allergen. contains db_allergen allergen_lower
                                   \<or> contains allergen_lower db_allergen)
              (get_list db severity_allergen)
      then severity
      else severity_lookup db rest allergen_lower)"

definition get_allergen_severity :: "AllergyChecker \<Rightarrow> string \<Rightarrow> string" where
  "get_allergen_severity self allergen =
     severity_lookup (allergen_database self) (severity_levels self) (strip (lower allergen))"

text \<open>\<open>_check_cross_contamination\<close>\<close>

definition risk_message :: "string \<Rightarrow> string" where
  "risk_message risk_category = ''Cross-contamination risk with '' @ risk_category"

definition check_cross_contamination ::
  "AllergyChecker \<Rightarrow> string \<Rightarrow> string list \<Rightarrow> string list" where
  "check_cross_contamination self user_allergy ingredients =
     (let allergen_lower = strip (lower user_allergy) in
      case find_category (allergen_database self) allergen_lower of
        None \<Rightarrow> []
      | Some user_allergen_category \<Rightarrow>
          if user_allergen_category = [] then []
          else map risk_message
                 (filter (\<lambda>risk_category.
                     list_ex (\<lambda>ingredient.
                        list_ex (\<lambda>risk_allergen. contains ingredient risk_allergen)
                          (get_list (allergen_database self) risk_category))
                       ingredients)
                   (get_list (cross_contamination_table self) user_allergen_category)))"

text \<open>\<open>_calculate_overall_risk\<close>\<close>

definition calculate_overall_risk ::
  "string list \<Rightarrow> string list \<Rightarrow> string list \<Rightarrow> string" where
  "calculate_overall_risk high_risk moderate_risk low_risk =
     (if high_risk \<noteq> [] then ''high''
      else if moderate_risk \<noteq> [] then ''moderate''
      else if low_risk \<noteq> [] then ''low''
      else ''safe'')"

text \<open>
  The dictionary returned by \<open>check_allergens\<close>.  The key \<open>ingredient_matches\<close> is absent
  from the early return (\<open>None\<close>).  The display texts under \<open>recommendations\<close> are not
  modelled.
\<close>

record AllergyAnalysis =
  risk_level :: string
  detected_allergens :: "string list"
  high_risk_allergens :: "string list"
  moderate_risk_allergens :: "string list"
  low_risk_allergens :: "string list"
  cross_contamination_risks :: "string list"
  ingredient_matches :: "string list option"

text \<open>The local variables of the loop over the user's allergies.\<close>

record AllergyLoop =
  detected :: "string list"
  high_risk :: "string list"
  moderate_risk :: "string list"
  low_risk :: "string list"
  cross_risks :: "string list"
  allergen_matches :: "string list"

definition allergy_loop_start :: AllergyLoop where
  "allergy_loop_start =
     \<lparr> detected = [], high_risk = [], moderate_risk = [], low_risk = [],
       cross_risks = [], allergen_matches = [] \<rparr>"

text \<open>One pass of the loop body for \<open>user_allergy\<close>.\<close>

definition allergy_loop_body ::
  "AllergyChecker \<Rightarrow> string list \<Rightarrow> AllergyLoop \<Rightarrow> string \<Rightarrow> AllergyLoop" where
  "allergy_loop_body self normalized_ingredients st user_allergy =
     (let found = find_allergen_matches self user_allergy normalized_ingredients in
      if found \<noteq> [] then
        (let severity = get_allergen_severity self user_allergy in
         \<lparr> detected = detected st @ [user_allergy],
           high_risk = (if severity = ''high'' then high_risk st @ [user_allergy]
                        else high_risk st),
           moderate_risk = (if severity \<noteq> ''high'' \<and> severity = ''moderate''
                            then moderate_risk st @ [user_allergy] else moderate_risk st),
           low_risk = (if severity \<noteq> ''high'' \<and> severity \<noteq> ''moderate''
                       then low_risk st @ [user_allergy] else low_risk st),
           cross_risks = cross_risks st
                           @ check_cross_contamination self user_allergy normalized_ingredients,
           allergen_matches = found \<rparr>)
      else st\<lparr> allergen_matches := found \<rparr>)"

text \<open>\<open>check_allergens\<close>; the profile argument may be \<open>None\<close>.\<close>

definition check_allergens ::
  "AllergyChecker \<Rightarrow> string list \<Rightarrow> UserProfile option \<Rightarrow> AllergyAnalysis" where
  "check_allergens self ingredients user_profile =
     (if user_profile = None \<or> allergies (the user_profile) = [] then
        \<lparr> risk_level = ''unknown'', detected_allergens = [], high_risk_allergens = [],
          moderate_risk_allergens = [], low_risk_allergens = [],
          cross_contamination_risks = [], ingredient_matches = None \<rparr>
      else
        (let normalized_ingredients = map (\<lambda>ing. strip (lower ing)) ingredients;
             st = foldl (allergy_loop_body self normalized_ingredients) allergy_loop_start
                    (allergies (the user_profile))
         in \<lparr> risk_level = calculate_overall_risk (high_risk st) (moderate_risk st) (low_risk st),
              detected_allergens = detected st,
              high_risk_allergens = high_risk st,
              moderate_risk_allergens = moderate_risk st,
              low_risk_allergens = low_risk st,
              cross_contamination_risks = list_set (cross_risks st),
              ingredient_matches = Some (allergen_matches st) \<rparr>))"

subsection \<open>Hidden allergens and the combined analysis (\<open>services/ingredient_analyzer.py\<close>)\<close>

text \<open>The table \<open>hidden_sources\<close> of \<open>_detect_hidden_allergens\<close>.\<close>

definition hidden_sources :: "(string \<times> string list) list" where
  "hidden_sources =
     [(''dairy'', [''casein'', ''whey'', ''lactose'', ''lactoglobulin'', ''lactalbumin'',
                   ''ghee'', ''butter flavor'', ''cream flavor'', ''milk solids'']),
      (''egg'', [''albumin'', ''globulin'', ''lecithin'', ''lysozyme'', ''ovalbumin'',
                 ''egg whites'', ''egg substitute'']),
      (''soy'', [''lecithin'', ''tocopherol'', ''vegetable protein'', ''vegetable oil'',
                 ''natural flavor'']),
      (''wheat'', [''modified food starch'', ''vegetable protein'', ''malt'',
                   ''dextrin'', ''maltodextrin'', ''starch'']),
      (''peanuts'', [''arachis oil'', ''groundnut oil'', ''beer nuts'', ''monkey nuts'']),
      (''tree_nuts'', [''natural flavoring'', ''marzipan'', ''nougat'', ''praline''])]"

definition hidden_label :: "string \<Rightarrow> string \<Rightarrow> string" where
  "hidden_label ingredient allergen_category =
     ingredient @ '' (hidden '' @ allergen_category @ '')''"

text \<open>The labels one allergy contributes, category by category and ingredient by ingredient.\<close>

definition hidden_for_allergy :: "string list \<Rightarrow> string \<Rightarrow> string list" where
  "hidden_for_allergy ingredients user_allergy =
     (let allergy_lower = lower user_allergy in
      concat (map (\<lambda>(allergen_category, hidden_names).
          if contains allergy_lower allergen_category \<or> contains allergen_category allergy_lower
          then map (\<lambda>ingredient. hidden_label ingredient allergen_category)
                 (filter (\<lambda>ingredient.
                     list_ex (\<lambda>hidden_name. contains (lower ingredient) hidden_name)
                       hidden_names) ingredients)
          else []) hidden_sources))"

text \<open>\<open>_detect_hidden_allergens\<close>\<close>

definition detect_hidden_allergens :: "string list \<Rightarrow> UserProfile option \<Rightarrow> string list" where
  "detect_hidden_allergens ingredients user_profile =
     (if user_profile = None \<or> allergies (the user_profile) = [] then []
      else list_set (concat (map (hidden_for_allergy ingredients)
                               (allergies (the user_profile)))))"

text \<open>
  The result of \<open>analyze_ingredients\<close>: either the error dictionary of the early return, or
  the allergy analysis extended with further keys.  The quality score, the nutritional
  insights and the recommendation texts do not enter any property below and are left
  out.
\<close>

record AnalysisError =
  error :: string
  error_risk_level :: string

record IngredientAnalysis =
  allergy_analysis :: AllergyAnalysis
  hidden_allergens :: "string list"
  processed_ingredients :: "string list"
  total_ingredients :: nat

definition analyze_ingredients ::
  "AllergyChecker \<Rightarrow> string \<Rightarrow> UserProfile option \<Rightarrow> AnalysisError + IngredientAnalysis" where
  "analyze_ingredients checker ingredients_text user_profile =
     (let ingredients = parse_ingredients ingredients_text in
      if ingredients = [] then
        Inl \<lparr> error = ''No ingredients found to analyze'', error_risk_level = ''unknown'' \<rparr>
      else
        Inr \<lparr> allergy_analysis = check_allergens checker ingredients user_profile,
              hidden_allergens = detect_hidden_allergens ingredients user_profile,
              processed_ingredients = ingredients,
              total_ingredients = length ingredients \<rparr>)"


section \<open>Medication checker (\<open>services/medication_checker.py\<close>)\<close>

text \<open>
  An entry of \<open>known_interactions\<close>: every entry of the source carries the keys \<open>avoid\<close>,
  \<open>caution\<close> and \<open>severity\<close>; \<open>timing\<close> is optional.
\<close>

record InteractionData =
  avoid :: "string list"
  caution :: "string list"
  timing_note :: "string option"
  record_severity :: string

text \<open>An entry of \<open>medication_categories\<close>.\<close>

record CategoryData =
  category_medications :: "string list"
  food_interactions :: "string list"
  category_severity :: string

record MedicationChecker =
  known_interactions :: "(string \<times> InteractionData) list"
  medication_categories :: "(string \<times> CategoryData) list"

definition MedicationChecker_init :: MedicationChecker where
  "MedicationChecker_init =
     \<lparr> known_interactions =
         [(''warfarin'',
             \<lparr> avoid = [''vitamin k'', ''green leafy vegetables'', ''broccoli'', ''spinach'', ''kale''],
               caution = [''alcohol'', ''cranberry juice'', ''grapefruit''],
               timing_note = None, record_severity = ''high'' \<rparr>),
          (''aspirin'',
             \<lparr> avoid = [''alcohol''],
               caution = [''vitamin e'', ''omega-3'', ''fish oil'', ''garlic supplements''],
               timing_note = None, record_severity = ''moderate'' \<rparr>),
          (''metformin'',
             \<lparr> avoid = [''excessive alcohol''],
               caution = [''high carbohydrate foods'', ''sugary drinks''],
               timing_note = None, record_severity = ''moderate'' \<rparr>),
          (''lisinopril'',
             \<lparr> avoid = [''potassium supplements'', ''salt substitutes''],
               caution = [''bananas'', ''oranges'', ''potatoes'', ''high potassium foods''],
               timing_note = None, record_severity = ''moderate'' \<rparr>),
          (''simvastatin'',
             \<lparr> avoid = [''grapefruit'', ''grapefruit juice''],
               caution = [''red yeast rice'', ''niacin'', ''alcohol''],
               timing_note = None, record_severity = ''high'' \<rparr>),
          (''digoxin'',
             \<lparr> avoid = [''licorice'', ''st johns wort''],
               caution = [''high fiber foods'', ''bran''],
               timing_note = None, record_severity = ''high'' \<rparr>),
          (''levothyroxine'',
             \<lparr> avoid = [''soy products'', ''coffee'', ''calcium supplements''],
               caution = [''iron supplements'', ''high fiber foods''],
               timing_note = Some ''take 30-60 minutes before eating'',
               record_severity = ''moderate'' \<rparr>),
          (''monoamine oxidase inhibitor'',
             \<lparr> avoid = [''aged cheeses'', ''wine'', ''beer'', ''soy sauce'', ''pickled foods'',
                        ''smoked meats''],
               caution = [''chocolate'', ''caffeine'', ''fava beans''],
               timing_note = None, record_severity = ''high'' \<rparr>),
          (''tetracycline'',
             \<lparr> avoid = [''dairy products'', ''calcium'', ''iron supplements''],
               caution = [''antacids'', ''aluminum'', ''magnesium''],
               timing_note = Some ''take 1 hour before or 2 hours after meals'',
               record_severity = ''moderate'' \<rparr>),
          (''phenytoin'',
             \<lparr> avoid = [''alcohol''],
               caution = [''folic acid supplements'', ''tube feeding''],
               timing_note = None, record_severity = ''moderate'' \<rparr>)],
       medication_categories =
         [(''blood_thinners'',
             \<lparr> category_medications = [''warfarin'', ''heparin'', ''coumadin'', ''eliquis'', ''xarelto''],
               food_interactions = [''vitamin k rich foods'', ''alcohol'', ''cranberry'', ''grapefruit''],
               category_severity = ''high'' \<rparr>),
          (''antibiotics'',
             \<lparr> category_medications = [''tetracycline'', ''ciprofloxacin'', ''amoxicillin'', ''penicillin''],
               food_interactions = [''dairy products'', ''calcium'', ''iron''],
               category_severity = ''moderate'' \<rparr>),
          (''antidepressants'',
             \<lparr> category_medications = [''ssri'', ''maoi'', ''tricyclic'', ''sertraline'', ''fluoxetine''],
               food_interactions = [''alcohol'', ''aged foods'', ''tyramine rich foods''],
               category_severity = ''high'' \<rparr>),
          (''heart_medications'',
             \<lparr> category_medications = [''digoxin'', ''beta blockers'', ''ace inhibitors''],
               food_interactions = [''potassium'', ''sodium'', ''alcohol''],
               category_severity = ''moderate'' \<rparr>),
          (''diabetes_medications'',
             \<lparr> category_medications = [''metformin'', ''insulin'', ''sulfonylureas''],
               food_interactions = [''alcohol'', ''high sugar foods'', ''carbohydrates''],
               category_severity = ''moderate'' \<rparr>)] \<rparr>"

text \<open>
  An interaction dictionary.  The keys \<open>timing\<close> and \<open>category\<close> are optional: direct
  interactions carry \<open>timing\<close> (the empty string when the record has no timing note) and
  no \<open>category\<close>; category interactions carry \<open>category\<close> and no \<open>timing\<close>.
\<close>

record Interaction =
  medication :: string
  ingredient :: string
  interaction_type :: string
  severity :: string
  description :: string
  timing :: "string option"
  category :: "string option"

text \<open>The table of \<open>_get_medication_aliases\<close>.\<close>

definition medication_aliases :: "(string \<times> string list) list" where
  "medication_aliases =
     [(''warfarin'', [''coumadin'', ''jantoven'']),
      (''aspirin'', [''acetylsalicylic acid'', ''asa'']),
      (''metformin'', [''glucophage'', ''fortamet'']),
      (''lisinopril'', [''prinivil'', ''zestril'']),
      (''simvastatin'', [''zocor'']),
      (''levothyroxine'', [''synthroid'', ''levoxyl'', ''thyroid hormone'']),
      (''digoxin'', [''lanoxin'', ''digitalis''])]"

definition get_medication_aliases :: "string \<Rightarrow> string list" where
  "get_medication_aliases med = get_list medication_aliases med"

text \<open>The table of \<open>_check_ingredient_aliases\<close>.\<close>

definition ingredient_aliases :: "(string \<times> string list) list" where
  "ingredient_aliases =
     [(''vitamin k'', [''phylloquinone'', ''menaquinone'', ''green leafy'']),
      (''grapefruit'', [''citrus paradisi'', ''grapefruit juice'']),
      (''dairy'', [''milk'', ''cheese'', ''yogurt'', ''cream'', ''butter'']),
      (''alcohol'', [''ethanol'', ''wine'', ''beer'', ''spirits'', ''ethyl alcohol'']),
      (''caffeine'', [''coffee'', ''tea'', ''cola'', ''energy drink'']),
      (''tyramine'', [''aged cheese'', ''wine'', ''soy sauce'', ''pickled'']),
      (''potassium'', [''banana'', ''orange'', ''potato'', ''salt substitute''])]"

text \<open>
  The loop of \<open>_check_ingredient_aliases\<close>: the first alias group related to the target
  decides.
\<close>

fun alias_groups_match :: "(string \<times> string list) list \<Rightarrow> string \<Rightarrow> string \<Rightarrow> bool" where
  "alias_groups_match [] ingr target = False"
| "alias_groups_match ((alias_group, alias_list) # rest) ingr target =
     (if contains target alias_group then list_ex (\<lambda>alias. contains ingr alias) alias_list
      else if contains alias_group target then list_ex (\<lambda>alias. contains ingr alias) alias_list
      else alias_groups_match rest ingr target)"

definition check_ingredient_aliases :: "string \<Rightarrow> string \<Rightarrow> bool" where
  "check_ingredient_aliases ingr target = alias_groups_match ingredient_aliases ingr target"

text \<open>\<open>_ingredient_contains\<close>\<close>

definition ingredient_contains :: "string list \<Rightarrow> string \<Rightarrow> bool" where
  "ingredient_contains ingredients target =
     (let target_lower = lower target;
          target_words = split_ws target_lower
      in list_ex (\<lambda>ingr.
           (let ingredient_lower = lower ingr in
            contains ingredient_lower target_lower
            \<or> list_all (\<lambda>word. contains ingredient_lower word) target_words
            \<or> check_ingredient_aliases ingredient_lower target_lower))
         ingredients)"

text \<open>The two dictionaries that \<open>_check_single_medication\<close> appends for a resolved record.\<close>

definition avoid_interaction :: "string \<Rightarrow> InteractionData \<Rightarrow> string \<Rightarrow> Interaction" where
  "avoid_interaction med interaction_data avoid_item =
     \<lparr> medication = med, ingredient = avoid_item, interaction_type = ''avoid'',
       severity = record_severity interaction_data,
       description = ''Should avoid '' @ avoid_item @ '' when taking '' @ med,
       timing = Some (case timing_note interaction_data of None \<Rightarrow> [] | Some t \<Rightarrow> t),
       category = None \<rparr>"

definition caution_interaction :: "string \<Rightarrow> InteractionData \<Rightarrow> string \<Rightarrow> Interaction" where
  "caution_interaction med interaction_data caution_item =
     \<lparr> medication = med, ingredient = caution_item, interaction_type = ''caution'',
       severity = (if record_severity interaction_data = ''high'' then ''moderate'' else ''low''),
       description = ''Use caution with '' @ caution_item @ '' when taking '' @ med,
       timing = Some (case timing_note interaction_data of None \<Rightarrow> [] | Some t \<Rightarrow> t),
       category = None \<rparr>"

text \<open>The test under which a record of \<open>known_interactions\<close> applies to a medication.\<close>

definition medication_resolves :: "string \<Rightarrow> string \<Rightarrow> bool" where
  "medication_resolves med_name medication_lower =
     (contains medication_lower med_name
      \<or> list_ex (\<lambda>alias. contains medication_lower alias) (get_medication_aliases med_name))"

text \<open>The interactions one record contributes: its avoid list first, then its caution list.\<close>

definition record_interactions ::
  "string \<Rightarrow> string list \<Rightarrow> string \<times> InteractionData \<Rightarrow> Interaction list" where
  "record_interactions med ingredients entry =
     (case entry of (med_name, interaction_data) \<Rightarrow>
        if medication_resolves med_name (strip (lower med))
        then map (avoid_interaction med interaction_data)
               (filter (ingredient_contains ingredients) (avoid interaction_data))
             @ map (caution_interaction med interaction_data)
                 (filter (ingredient_contains ingredients) (caution interaction_data))
        else [])"

text \<open>\<open>_check_category_interactions\<close>\<close>

definition category_interaction :: "string \<Rightarrow> string \<Rightarrow> CategoryData \<Rightarrow> string \<Rightarrow> Interaction" where
  "category_interaction med cat category_data food_interaction =
     \<lparr> medication = med, ingredient = food_interaction,
       interaction_type = ''category_interaction'',
       severity = category_severity category_data,
       description = food_interaction @ '' may interact with ''
                       @ replace_char (CHR ''_'') (CHR '' '') cat @ '' medications'',
       timing = None,
       category = Some cat \<rparr>"

definition check_category_interactions ::
  "MedicationChecker \<Rightarrow> string \<Rightarrow> string list \<Rightarrow> Interaction list" where
  "check_category_interactions self med ingredients =
     (let medication_lower = strip (lower med) in
      concat (map (\<lambda>(cat, category_data).
          if list_ex (\<lambda>m. contains medication_lower m) (category_medications category_data)
          then map (category_interaction med cat category_data)
                 (filter (ingredient_contains ingredients) (food_interactions category_data))
          else []) (medication_categories self)))"

text \<open>\<open>_check_single_medication\<close>\<close>

definition check_single_medication ::
  "MedicationChecker \<Rightarrow> string \<Rightarrow> string list \<Rightarrow> Interaction list" where
  "check_single_medication self med ingredients =
     concat (map (record_interactions med ingredients) (known_interactions self))
     @ check_category_interactions self med ingredients"

text \<open>
  The dictionary returned by \<open>check_interactions\<close>.  The key \<open>detailed_interactions\<close> is
  absent from the early return (\<open>None\<close>).  A timing recommendation is the pair of the
  medication and the timing text.  The display texts under \<open>recommendations\<close> are not
  modelled.
\<close>

record InteractionAnalysis =
  interactions_found :: bool
  total_interactions :: nat
  high_risk_interactions :: "Interaction list"
  moderate_risk_interactions :: "Interaction list"
  low_risk_interactions :: "Interaction list"
  timing_recommendations :: "(string \<times> string) list"
  detailed_interactions :: "Interaction list option"

text \<open>The local variables of the loop over the user's medications.\<close>

record InteractionLoop =
  all_interactions :: "Interaction list"
  high_risk_list :: "Interaction list"
  moderate_risk_list :: "Interaction list"
  low_risk_list :: "Interaction list"
  timing_list :: "(string \<times> string) list"

definition interaction_loop_start :: InteractionLoop where
  "interaction_loop_start =
     \<lparr> all_interactions = [], high_risk_list = [], moderate_risk_list = [],
       low_risk_list = [], timing_list = [] \<rparr>"

text \<open>The inner loop body: one interaction is filed by severity, and its timing is noted.\<close>

definition file_interaction :: "string \<Rightarrow> InteractionLoop \<Rightarrow> Interaction \<Rightarrow> InteractionLoop" where
  "file_interaction med st interaction =
     st\<lparr> high_risk_list :=
            (if severity interaction = ''high'' then high_risk_list st @ [interaction]
             else high_risk_list st),
         moderate_risk_list :=
            (if severity interaction \<noteq> ''high'' \<and> severity interaction = ''moderate''
             then moderate_risk_list st @ [interaction] else moderate_risk_list st),
         low_risk_list :=
            (if severity interaction \<noteq> ''high'' \<and> severity interaction \<noteq> ''moderate''
             then low_risk_list st @ [interaction] else low_risk_list st),
         timing_list :=
            (case timing interaction of
               None \<Rightarrow> timing_list st
             | Some t \<Rightarrow> if t \<noteq> [] then timing_list st @ [(med, t)] else timing_list st) \<rparr>"

text \<open>The outer loop body for one medication.\<close>

definition interaction_loop_body ::
  "MedicationChecker \<Rightarrow> string list \<Rightarrow> InteractionLoop \<Rightarrow> string \<Rightarrow> InteractionLoop" where
  "interaction_loop_body self ingredients st med =
     (let med_interactions = check_single_medication self med ingredients in
      if med_interactions \<noteq> []
      then foldl (file_interaction med)
             (st\<lparr> all_interactions := all_interactions st @ med_interactions \<rparr>)
             med_interactions
      else st)"

text \<open>\<open>check_interactions\<close>; the profile argument may be \<open>None\<close>.\<close>

definition check_interactions ::
  "MedicationChecker \<Rightarrow> string list \<Rightarrow> UserProfile option \<Rightarrow> InteractionAnalysis" where
  "check_interactions self ingredients user_profile =
     (if user_profile = None \<or> medications (the user_profile) = [] then
        \<lparr> interactions_found = False, total_interactions = 0,
          high_risk_interactions = [], moderate_risk_interactions = [],
          low_risk_interactions = [], timing_recommendations = [],
          detailed_interactions = None \<rparr>
      else
        (let st = foldl (interaction_loop_body self ingredients) interaction_loop_start
                    (medications (the user_profile))
         in \<lparr> interactions_found = (length (all_interactions st) > 0),
              total_interactions = length (all_interactions st),
              high_risk_interactions = high_risk_list st,
              moderate_risk_interactions = moderate_risk_list st,
              low_risk_interactions = low_risk_list st,
              timing_recommendations = timing_list st,
              detailed_interactions = Some (all_interactions st) \<rparr>))"

text \<open>The severity one level below, with floor \<open>low\<close>, on the three levels of the data model.\<close>

definition one_level_below :: "string \<Rightarrow> string" where
  "one_level_below sev =
     (if sev = ''high'' then ''moderate''
      else if sev = ''moderate'' then ''low''
      else ''low'')"


section \<open>Notions used in the statements\<close>

text \<open>
  The greatest of a list of severities in the order \<open>safe < low < moderate < high\<close>, and
  \<open>safe\<close> for the empty list.  A severity that is neither \<open>high\<close> nor \<open>moderate\<close> counts as
  \<open>low\<close>.
\<close>

definition max_severity :: "string list \<Rightarrow> string" where
  "max_severity sevs =
     (if ''high'' \<in> set sevs then ''high''
      else if ''moderate'' \<in> set sevs then ''moderate''
      else if sevs \<noteq> [] then ''low''
      else ''safe'')"

text \<open>The allergies and medications a possibly missing profile declares.\<close>

definition declared_allergies :: "UserProfile option \<Rightarrow> string list" where
  "declared_allergies user_profile =
     (case user_profile of None \<Rightarrow> [] | Some p \<Rightarrow> allergies p)"

definition declared_medications :: "UserProfile option \<Rightarrow> string list" where
  "declared_medications user_profile =
     (case user_profile of None \<Rightarrow> [] | Some p \<Rightarrow> medications p)"

text \<open>The timing recommendations that the interactions found for one medication give rise to.\<close>

definition timing_entries :: "string \<Rightarrow> Interaction list \<Rightarrow> (string \<times> string) list" where
  "timing_entries med interactions =
     concat (map (\<lambda>i. case timing i of
                         None \<Rightarrow> []
                       | Some t \<Rightarrow> if t \<noteq> [] then [(med, t)] else []) interactions)"

text \<open>A profile with the given allergies and medications and default values elsewhere.\<close>

definition profile_of :: "string list \<Rightarrow> string list \<Rightarrow> UserProfile" where
  "profile_of als meds = UserProfile_init [] None (Some als) (Some meds) None [] None 0"


text \<open>The record of \<open>known_interactions\<close> for \<open>warfarin\<close>.\<close>

definition warfarin_data :: InteractionData where
  "warfarin_data =
     \<lparr> avoid = [''vitamin k'', ''green leafy vegetables'', ''broccoli'', ''spinach'', ''kale''],
       caution = [''alcohol'', ''cranberry juice'', ''grapefruit''],
       timing_note = None, record_severity = ''high'' \<rparr>"


text \<open>The record of \<open>known_interactions\<close> for \<open>levothyroxine\<close>.\<close>

definition levothyroxine_data :: InteractionData where
  "levothyroxine_data =
     \<lparr> avoid = [''soy products'', ''coffee'', ''calcium supplements''],
       caution = [''iron supplements'', ''high fiber foods''],
       timing_note = Some ''take 30-60 minutes before eating'',
       record_severity = ''moderate'' \<rparr>"

section \<open>Properties of the user profile\<close>

lemma add_allergy_present:
  "lower a \<in> set (map lower (allergies p)) \<Longrightarrow> add_allergy a now p = p"
  by (simp add: add_allergy_def)

lemma add_allergy_new:
  "a \<noteq> [] \<Longrightarrow> lower a \<notin> set (map lower (allergies p)) \<Longrightarrow>
   allergies (add_allergy a now p) = allergies p @ [a]"
  by (simp add: add_allergy_def)

lemma add_allergy_preserves:
  "case_distinct (allergies p) \<Longrightarrow> case_distinct (allergies (add_allergy a now p))"
  by (simp add: add_allergy_def case_distinct_def)

lemma add_allergy_calls_preserve:
  "case_distinct (allergies p) \<Longrightarrow>
   case_distinct (allergies (foldl (\<lambda>q (x, t). add_allergy x t q) p calls))"
proof (induction calls arbitrary: p)
  case Nil
  then show ?case by simp
next
  case (Cons c calls)
  obtain x t where c: "c = (x, t)" by (cases c)
  from Cons.prems have "case_distinct (allergies (add_allergy x t p))"
    by (rule add_allergy_preserves)
  from Cons.IH [OF this] show ?case by (simp add: c)
qed

text \<open>
  Claim C10, as amended.  \<open>add_allergy\<close> is idempotent up to case: when an existing
  allergy equals the argument up to lower-casing, the list of allergies stays as it is;
  a new non-empty name is appended, and nothing else.  Consequently \<open>add_allergy\<close> never
  introduces two entries that are equal up to case: a list without such a pair keeps
  that property, and so does every list built from the empty one by calls of
  \<open>add_allergy\<close>.
\<close>

theorem add_allergy_case_insensitive:
  "(lower a \<in> set (map lower (allergies p)) \<longrightarrow> allergies (add_allergy a now p) = allergies p)
   \<and> (a \<noteq> [] \<and> lower a \<notin> set (map lower (allergies p))
        \<longrightarrow> allergies (add_allergy a now p) = allergies p @ [a])
   \<and> (case_distinct (allergies p) \<longrightarrow> case_distinct (allergies (add_allergy a now p)))
   \<and> (allergies p = []
        \<longrightarrow> case_distinct (allergies (foldl (\<lambda>q (x, t). add_allergy x t q) p calls)))"
proof (intro conjI impI)
  assume "lower a \<in> set (map lower (allergies p))"
  then show "allergies (add_allergy a now p) = allergies p"
    by (simp add: add_allergy_present)
next
  assume "a \<noteq> [] \<and> lower a \<notin> set (map lower (allergies p))"
  then show "allergies (add_allergy a now p) = allergies p @ [a]"
    by (simp add: add_allergy_new)
next
  assume "case_distinct (allergies p)"
  then show "case_distinct (allergies (add_allergy a now p))"
    by (rule add_allergy_preserves)
next
  assume "allergies p = []"
  then have "case_distinct (allergies p)" by (simp add: case_distinct_def)
  then show "case_distinct (allergies (foldl (\<lambda>q (x, t). add_allergy x t q) p calls))"
    by (rule add_allergy_calls_preserve)
qed

text \<open>
  Witness for C10: on the profile with the single allergy \<open>Milk\<close>, adding \<open>MILK\<close> changes
  nothing and adding \<open>Soy\<close> appends it; three calls on the empty profile leave a list
  without a pair equal up to case.
\<close>

theorem add_allergy_case_insensitive_witness:
  "allergies (add_allergy ''MILK'' 1 (profile_of [''Milk''] [])) = [''Milk'']
   \<and> allergies (add_allergy ''Soy'' 1 (profile_of [''Milk''] [])) = [''Milk'', ''Soy'']
   \<and> case_distinct (allergies (add_allergy ''Soy'' 1 (profile_of [''Milk''] [])))
   \<and> case_distinct (allergies (foldl (\<lambda>q (x, t). add_allergy x t q) (profile_of [] [])
                                  [(''Milk'', 1), (''MILK'', 2), (''Soy'', 3)]))"
proof -
  have al: "allergies (profile_of [''Milk''] []) = [''Milk'']"
    by (simp add: profile_of_def UserProfile_init_def or_empty_def)
  have h1: "lower ''MILK'' \<in> set (map lower (allergies (profile_of [''Milk''] [])))"
    unfolding al by code_simp
  have h2: "''Soy'' \<noteq> [] \<and> lower ''Soy'' \<notin> set (map lower (allergies (profile_of [''Milk''] [])))"
    unfolding al by code_simp
  have h3: "case_distinct (allergies (profile_of [''Milk''] []))"
    unfolding al by code_simp
  have h4: "allergies (profile_of [] []) = []"
    by (simp add: profile_of_def UserProfile_init_def or_empty_def)
  from add_allergy_case_insensitive [of "''MILK''" "profile_of [''Milk''] []" 1 "[]"] h1
  have "allergies (add_allergy ''MILK'' 1 (profile_of [''Milk''] []))
          = allergies (profile_of [''Milk''] [])"
    by blast
  then have c1: "allergies (add_allergy ''MILK'' 1 (profile_of [''Milk''] [])) = [''Milk'']"
    by (simp only: al)
  from add_allergy_case_insensitive [of "''Soy''" "profile_of [''Milk''] []" 1 "[]"] h2
  have "allergies (add_allergy ''Soy'' 1 (profile_of [''Milk''] []))
          = allergies (profile_of [''Milk''] []) @ [''Soy'']"
    by blast
  then have c2: "allergies (add_allergy ''Soy'' 1 (profile_of [''Milk''] [])) = [''Milk'', ''Soy'']"
    by (simp only: al append.simps)
  from add_allergy_case_insensitive [of "''Soy''" "profile_of [''Milk''] []" 1 "[]"] h3
  have c2': "case_distinct (allergies (add_allergy ''Soy'' 1 (profile_of [''Milk''] [])))"
    by blast
  from add_allergy_case_insensitive
         [of "''x''" "profile_of [] []" 0 "[(''Milk'', 1), (''MILK'', 2), (''Soy'', 3)]"] h4
  have c3: "case_distinct (allergies (foldl (\<lambda>q (x, t). add_allergy x t q) (profile_of [] [])
                                  [(''Milk'', 1), (''MILK'', 2), (''Soy'', 3)]))"
    by blast
  from c1 c2 c2' c3 show ?thesis by blast
qed

text \<open>
  Counterexample for C10 as stated: the constructor stores the list it is given, so a
  profile created with the allergies \<open>Milk\<close> and \<open>milk\<close> holds two entries equal up to
  case, and still does after \<open>add_allergy\<close>.
\<close>

theorem add_allergy_keeps_constructed_duplicates:
  "allergies (add_allergy ''Soy'' 1 (profile_of [''Milk'', ''milk''] []))
     = [''Milk'', ''milk'', ''Soy'']
   \<and> lower ''Milk'' = lower ''milk''
   \<and> \<not> case_distinct (allergies (add_allergy ''Soy'' 1 (profile_of [''Milk'', ''milk''] [])))"
  by code_simp

section \<open>Properties of the ingredient parser\<close>

text \<open>
  Claim C6 at the input \<open>milk\<close>, line feed, \<open>eggs\<close>: the separators of the source are the
  two-character strings backslash-n and backslash-r, so the line feed does not split the
  text, and the single token returned spans the line break.
\<close>

theorem parse_keeps_line_break:
  "parse_ingredients (''milk'' @ [CHR 0x0A] @ ''eggs'') = [''milk'' @ [CHR 0x0A] @ ''eggs'']"
  by code_simp

text \<open>
  Claim C7 at the input \<open>1a\<close>: the length test is made before the leading numbering is
  removed, and the token \<open>a\<close> of length one is returned.
\<close>

theorem parse_returns_single_character:
  "parse_ingredients ''1a'' = [''a''] \<and> length (hd (parse_ingredients ''1a'')) = 1"
  by code_simp

text \<open>
  Claim C5 at the input \<open>1a\<close>: the parser returns the token \<open>a\<close>; parsing the joined
  form of that result again returns no token at all.
\<close>

theorem parse_not_idempotent:
  "parse_ingredients (join_tokens (parse_ingredients ''1a'')) = []
   \<and> parse_ingredients (join_tokens (parse_ingredients ''1a'')) \<noteq> parse_ingredients ''1a''"
  by code_simp


section \<open>Properties of the allergy checker\<close>

subsection \<open>The loop over the user's allergies\<close>

lemma allergy_loop_detected:
  "detected (foldl (allergy_loop_body self norm) st als)
     = detected st @ filter (\<lambda>a. find_allergen_matches self a norm \<noteq> []) als"
  by (induction als arbitrary: st) (simp_all add: allergy_loop_body_def Let_def)

lemma allergy_loop_high:
  "high_risk (foldl (allergy_loop_body self norm) st als)
     = high_risk st @ filter (\<lambda>a. get_allergen_severity self a = ''high'')
                        (filter (\<lambda>a. find_allergen_matches self a norm \<noteq> []) als)"
  by (induction als arbitrary: st) (simp_all add: allergy_loop_body_def Let_def)

lemma allergy_loop_moderate:
  "moderate_risk (foldl (allergy_loop_body self norm) st als)
     = moderate_risk st @ filter (\<lambda>a. get_allergen_severity self a = ''moderate'')
                            (filter (\<lambda>a. find_allergen_matches self a norm \<noteq> []) als)"
  by (induction als arbitrary: st) (simp_all add: allergy_loop_body_def Let_def)

lemma allergy_loop_low:
  "low_risk (foldl (allergy_loop_body self norm) st als)
     = low_risk st @ filter (\<lambda>a. get_allergen_severity self a \<noteq> ''high''
                                 \<and> get_allergen_severity self a \<noteq> ''moderate'')
                       (filter (\<lambda>a. find_allergen_matches self a norm \<noteq> []) als)"
  by (induction als arbitrary: st) (simp_all add: allergy_loop_body_def Let_def)

lemma allergy_loop_cross:
  "cross_risks (foldl (allergy_loop_body self norm) st als)
     = cross_risks st @ concat (map (\<lambda>a. check_cross_contamination self a norm)
                                  (filter (\<lambda>a. find_allergen_matches self a norm \<noteq> []) als))"
  by (induction als arbitrary: st) (simp_all add: allergy_loop_body_def Let_def)

subsection \<open>The result of \<open>check_allergens\<close>\<close>

lemma check_allergens_detected:
  "detected_allergens (check_allergens self ings user_profile)
     = filter (\<lambda>a. find_allergen_matches self a (map (\<lambda>ing. strip (lower ing)) ings) \<noteq> [])
         (declared_allergies user_profile)"
proof (cases user_profile)
  case None
  then show ?thesis
    by (simp add: check_allergens_def declared_allergies_def)
next
  case (Some p)
  then show ?thesis
    by (cases "allergies p = []")
       (simp_all add: check_allergens_def Let_def allergy_loop_detected allergy_loop_start_def
          declared_allergies_def)
qed

lemma check_allergens_cross:
  "set (cross_contamination_risks (check_allergens self ings user_profile))
     = set (concat (map (\<lambda>a. check_cross_contamination self a
                                (map (\<lambda>ing. strip (lower ing)) ings))
                      (detected_allergens (check_allergens self ings user_profile))))"
proof (cases user_profile)
  case None
  then show ?thesis
    by (simp add: check_allergens_def)
next
  case (Some p)
  then show ?thesis
    by (cases "allergies p = []")
       (simp_all add: check_allergens_def Let_def allergy_loop_detected allergy_loop_cross
          allergy_loop_start_def list_set_def)
qed

lemma max_severity_filters:
  "calculate_overall_risk
     (filter (\<lambda>a. sev a = ''high'') ds)
     (filter (\<lambda>a. sev a = ''moderate'') ds)
     (filter (\<lambda>a. sev a \<noteq> ''high'' \<and> sev a \<noteq> ''moderate'') ds)
   = max_severity (map sev ds)"
proof -
  have h: "(filter (\<lambda>a. sev a = ''high'') ds \<noteq> []) = (''high'' \<in> set (map sev ds))"
    by (induction ds) auto
  have m: "(filter (\<lambda>a. sev a = ''moderate'') ds \<noteq> []) = (''moderate'' \<in> set (map sev ds))"
    by (induction ds) auto
  have l: "''high'' \<notin> set (map sev ds) \<Longrightarrow> ''moderate'' \<notin> set (map sev ds) \<Longrightarrow>
           (filter (\<lambda>a. sev a \<noteq> ''high'' \<and> sev a \<noteq> ''moderate'') ds \<noteq> []) = (ds \<noteq> [])"
    by (induction ds) auto
  show ?thesis
    unfolding calculate_overall_risk_def max_severity_def
    using h m l by (simp del: set_map)
qed

lemma max_severity_not_unknown: "max_severity sevs \<noteq> ''unknown''"
  by (simp add: max_severity_def)

lemma check_allergens_risk:
  "risk_level (check_allergens self ings user_profile)
     = (if declared_allergies user_profile = [] then ''unknown''
        else max_severity (map (get_allergen_severity self)
               (detected_allergens (check_allergens self ings user_profile))))"
proof (cases user_profile)
  case None
  then show ?thesis
    by (simp add: check_allergens_def declared_allergies_def)
next
  case (Some p)
  show ?thesis
  proof (cases "allergies p = []")
    case True
    with Some show ?thesis
      by (simp add: check_allergens_def declared_allergies_def)
  next
    case False
    with Some show ?thesis
      by (simp add: check_allergens_def Let_def declared_allergies_def allergy_loop_detected
            allergy_loop_high allergy_loop_moderate allergy_loop_low allergy_loop_start_def
            max_severity_filters del: filter_filter)
  qed
qed

text \<open>
  Claim C3, as amended.  The risk level returned by \<open>check_allergens\<close> is \<open>unknown\<close> if and
  only if the profile is missing or declares no allergies; the medications are not
  consulted.  Otherwise it is the greatest severity among the detected allergies (those
  with at least one ingredient match), or \<open>safe\<close> when none is detected.
\<close>

theorem check_allergens_risk_level:
  "(risk_level (check_allergens self ings user_profile) = ''unknown'')
     = (declared_allergies user_profile = [])
   \<and> risk_level (check_allergens self ings user_profile)
     = (if declared_allergies user_profile = [] then ''unknown''
        else max_severity (map (get_allergen_severity self)
               (detected_allergens (check_allergens self ings user_profile))))
   \<and> detected_allergens (check_allergens self ings user_profile)
     = filter (\<lambda>a. find_allergen_matches self a (map (\<lambda>ing. strip (lower ing)) ings) \<noteq> [])
         (declared_allergies user_profile)
   \<and> check_allergens self ings (Some (p\<lparr>medications := meds\<rparr>)) = check_allergens self ings (Some p)"
proof (intro conjI)
  show "(risk_level (check_allergens self ings user_profile) = ''unknown'')
          = (declared_allergies user_profile = [])"
    by (simp add: check_allergens_risk max_severity_not_unknown)
  show "risk_level (check_allergens self ings user_profile)
     = (if declared_allergies user_profile = [] then ''unknown''
        else max_severity (map (get_allergen_severity self)
               (detected_allergens (check_allergens self ings user_profile))))"
    by (rule check_allergens_risk)
  show "detected_allergens (check_allergens self ings user_profile)
     = filter (\<lambda>a. find_allergen_matches self a (map (\<lambda>ing. strip (lower ing)) ings) \<noteq> [])
         (declared_allergies user_profile)"
    by (rule check_allergens_detected)
  show "check_allergens self ings (Some (p\<lparr>medications := meds\<rparr>)) = check_allergens self ings (Some p)"
    by (simp add: check_allergens_def)
qed

text \<open>
  Counterexample for C3 as stated: a profile with no allergies and the medication
  \<open>warfarin\<close> yields \<open>unknown\<close>.
\<close>

theorem check_allergens_unknown_with_medication:
  "medications (profile_of [] [''warfarin'']) = [''warfarin'']
   \<and> risk_level (check_allergens AllergyChecker_init [''spinach'']
                   (Some (profile_of [] [''warfarin'']))) = ''unknown''"
  by code_simp


text \<open>
  Counterexample for C1 as stated: for the allergy \<open>peanuts\<close> and the single ingredient
  \<open>soy lecithin\<close> no allergen is detected, and no cross-contamination warning is returned,
  although \<open>_check_cross_contamination\<close> itself finds the risk with \<open>soy\<close>.
\<close>

theorem no_cross_contamination_without_match:
  "detected_allergens (check_allergens AllergyChecker_init [''soy lecithin'']
                        (Some (profile_of [''peanuts''] []))) = []
   \<and> cross_contamination_risks (check_allergens AllergyChecker_init [''soy lecithin'']
                                  (Some (profile_of [''peanuts''] []))) = []
   \<and> check_cross_contamination AllergyChecker_init ''peanuts'' [''soy lecithin'']
       = [''Cross-contamination risk with soy'']"
  by code_simp

text \<open>With a direct match in the list, the allergy is detected and the warning is returned.\<close>

lemma cross_contamination_with_match:
  "check_allergens AllergyChecker_init [''peanut oil'', ''soy lecithin'']
     (Some (profile_of [''peanuts''] []))
   = \<lparr> risk_level = ''high'', detected_allergens = [''peanuts''],
       high_risk_allergens = [''peanuts''], moderate_risk_allergens = [],
       low_risk_allergens = [],
       cross_contamination_risks = [''Cross-contamination risk with soy''],
       ingredient_matches = Some [''peanut oil''] \<rparr>"
  by code_simp

text \<open>
  Claim C1, as amended.  Cross-contamination checking is performed for exactly the user
  allergies for which at least one ingredient match was found: the warnings returned
  are those of \<open>_check_cross_contamination\<close> for the detected allergies.  For the allergy
  \<open>peanuts\<close> and the ingredients \<open>peanut oil\<close> and \<open>soy lecithin\<close> the warning about \<open>soy\<close>
  is returned.
\<close>

theorem cross_contamination_for_detected:
  "set (cross_contamination_risks (check_allergens self ings user_profile))
     = set (concat (map (\<lambda>a. check_cross_contamination self a
                                (map (\<lambda>ing. strip (lower ing)) ings))
                      (detected_allergens (check_allergens self ings user_profile))))
   \<and> detected_allergens (check_allergens self ings user_profile)
     = filter (\<lambda>a. find_allergen_matches self a (map (\<lambda>ing. strip (lower ing)) ings) \<noteq> [])
         (declared_allergies user_profile)
   \<and> cross_contamination_risks
         (check_allergens AllergyChecker_init [''peanut oil'', ''soy lecithin'']
            (Some (profile_of [''peanuts''] [])))
       = [''Cross-contamination risk with soy'']"
  using check_allergens_cross check_allergens_detected
  by (simp add: cross_contamination_with_match)

text \<open>
  Claim C2 at the profile with the allergy \<open>dairy\<close> and the text \<open>whey protein, sugar\<close>: the
  hidden-allergen collection holds the label \<open>whey protein (hidden dairy)\<close>, without
  repetition, but no allergen is detected and the risk level is \<open>safe\<close>.
\<close>

theorem hidden_dairy_rated_safe:
  "analyze_ingredients AllergyChecker_init ''whey protein, sugar''
     (Some (profile_of [''dairy''] []))
   = Inr \<lparr> allergy_analysis =
             \<lparr> risk_level = ''safe'', detected_allergens = [], high_risk_allergens = [],
               moderate_risk_allergens = [], low_risk_allergens = [],
               cross_contamination_risks = [], ingredient_matches = Some [] \<rparr>,
           hidden_allergens = [''whey protein (hidden dairy)''],
           processed_ingredients = [''whey protein'', ''sugar''],
           total_ingredients = 2 \<rparr>"
  by code_simp


section \<open>Properties of the medication checker\<close>

subsection \<open>The interactions of a single medication\<close>

lemma record_interactions_avoid:
  assumes "medication_resolves n (strip (lower med))"
    and "item \<in> set (avoid d)" and "ingredient_contains ings item"
  shows "avoid_interaction med d item \<in> set (record_interactions med ings (n, d))"
  using assms by (simp add: record_interactions_def)

lemma record_interactions_caution:
  assumes "medication_resolves n (strip (lower med))"
    and "item \<in> set (caution d)" and "ingredient_contains ings item"
  shows "caution_interaction med d item \<in> set (record_interactions med ings (n, d))"
  using assms by (simp add: record_interactions_def)

lemma single_medication_contains_record:
  assumes "(n, d) \<in> set (known_interactions self)"
    and "i \<in> set (record_interactions med ings (n, d))"
  shows "i \<in> set (check_single_medication self med ings)"
  using assms by (auto simp: check_single_medication_def)

lemma category_interaction_type:
  "i \<in> set (check_category_interactions self med ings) \<Longrightarrow>
   interaction_type i = ''category_interaction''"
  by (auto simp: check_category_interactions_def category_interaction_def Let_def
           split: if_splits)

lemma single_medication_cases:
  assumes "i \<in> set (check_single_medication self med ings)"
  shows "interaction_type i = ''category_interaction''
         \<or> (\<exists>n d. (n, d) \<in> set (known_interactions self)
                   \<and> medication_resolves n (strip (lower med))
                   \<and> ((\<exists>item. item \<in> set (avoid d) \<and> ingredient_contains ings item
                               \<and> i = avoid_interaction med d item)
                       \<or> (\<exists>item. item \<in> set (caution d) \<and> ingredient_contains ings item
                                  \<and> i = caution_interaction med d item)))"
proof -
  from assms consider
      (direct) e where "e \<in> set (known_interactions self)"
                       "i \<in> set (record_interactions med ings e)"
    | (cat) "i \<in> set (check_category_interactions self med ings)"
    by (auto simp: check_single_medication_def)
  then show ?thesis
  proof cases
    case direct
    obtain n d where e: "e = (n, d)" by (cases e)
    from direct(2) have res: "medication_resolves n (strip (lower med))"
      by (simp add: e record_interactions_def split: if_splits)
    with direct(2) have
      "(\<exists>item. item \<in> set (avoid d) \<and> ingredient_contains ings item
                \<and> i = avoid_interaction med d item)
       \<or> (\<exists>item. item \<in> set (caution d) \<and> ingredient_contains ings item
                  \<and> i = caution_interaction med d item)"
      by (auto simp: e record_interactions_def)
    with direct(1) res show ?thesis
      unfolding e by blast
  next
    case cat
    then show ?thesis by (simp add: category_interaction_type)
  qed
qed

lemma avoid_interaction_fields:
  "medication (avoid_interaction med d item) = med"
  "ingredient (avoid_interaction med d item) = item"
  "interaction_type (avoid_interaction med d item) = ''avoid''"
  "severity (avoid_interaction med d item) = record_severity d"
  by (simp_all add: avoid_interaction_def)

lemma caution_interaction_fields:
  "medication (caution_interaction med d item) = med"
  "ingredient (caution_interaction med d item) = item"
  "interaction_type (caution_interaction med d item) = ''caution''"
  "severity (caution_interaction med d item) = one_level_below (record_severity d)"
  by (simp_all add: caution_interaction_def one_level_below_def)

lemma avoid_kind_origin:
  assumes "j \<in> set (check_single_medication self med ings)"
    and "interaction_type j = ''avoid''"
  shows "\<exists>n d. (n, d) \<in> set (known_interactions self)
               \<and> medication_resolves n (strip (lower med))
               \<and> ingredient j \<in> set (avoid d) \<and> ingredient_contains ings (ingredient j)
               \<and> severity j = record_severity d"
proof -
  from single_medication_cases [OF assms(1)] assms(2)
  obtain n d where nd: "(n, d) \<in> set (known_interactions self)"
      "medication_resolves n (strip (lower med))"
    and alt: "(\<exists>item. item \<in> set (avoid d) \<and> ingredient_contains ings item
                      \<and> j = avoid_interaction med d item)
              \<or> (\<exists>item. item \<in> set (caution d) \<and> ingredient_contains ings item
                         \<and> j = caution_interaction med d item)"
    by auto
  from alt assms(2) obtain item where item: "item \<in> set (avoid d)"
      "ingredient_contains ings item" "j = avoid_interaction med d item"
    by (auto simp: caution_interaction_fields)
  from item have "ingredient j \<in> set (avoid d) \<and> ingredient_contains ings (ingredient j)
                  \<and> severity j = record_severity d"
    by (simp add: avoid_interaction_fields)
  with nd show ?thesis by blast
qed

lemma caution_kind_origin:
  assumes "j \<in> set (check_single_medication self med ings)"
    and "interaction_type j = ''caution''"
  shows "\<exists>n d. (n, d) \<in> set (known_interactions self)
               \<and> medication_resolves n (strip (lower med))
               \<and> ingredient j \<in> set (caution d) \<and> ingredient_contains ings (ingredient j)
               \<and> severity j = one_level_below (record_severity d)"
proof -
  from single_medication_cases [OF assms(1)] assms(2)
  obtain n d where nd: "(n, d) \<in> set (known_interactions self)"
      "medication_resolves n (strip (lower med))"
    and alt: "(\<exists>item. item \<in> set (avoid d) \<and> ingredient_contains ings item
                      \<and> j = avoid_interaction med d item)
              \<or> (\<exists>item. item \<in> set (caution d) \<and> ingredient_contains ings item
                         \<and> j = caution_interaction med d item)"
    by auto
  from alt assms(2) obtain item where item: "item \<in> set (caution d)"
      "ingredient_contains ings item" "j = caution_interaction med d item"
    by (auto simp: avoid_interaction_fields)
  from item have "ingredient j \<in> set (caution d) \<and> ingredient_contains ings (ingredient j)
                  \<and> severity j = one_level_below (record_severity d)"
    by (simp add: caution_interaction_fields)
  with nd show ?thesis by blast
qed

text \<open>
  Claim C8.  For a medication that resolves to a record, every avoid term of the record
  that the ingredients match is reported with kind \<open>avoid\<close> and the record's severity,
  and every caution term that they match is reported with kind \<open>caution\<close> and the
  severity one level below the record's, with floor \<open>low\<close>.  Conversely, every
  interaction of kind \<open>avoid\<close> or \<open>caution\<close> in the result stems from such a match and
  carries that severity.
\<close>

theorem avoid_and_caution_severity:
  "((n, d) \<in> set (known_interactions self) \<and> medication_resolves n (strip (lower med))
      \<and> item \<in> set (avoid d) \<and> ingredient_contains ings item
     \<longrightarrow> (\<exists>i. i \<in> set (check_single_medication self med ings)
              \<and> medication i = med \<and> ingredient i = item
              \<and> interaction_type i = ''avoid'' \<and> severity i = record_severity d))
   \<and> ((n, d) \<in> set (known_interactions self) \<and> medication_resolves n (strip (lower med))
      \<and> item \<in> set (caution d) \<and> ingredient_contains ings item
     \<longrightarrow> (\<exists>i. i \<in> set (check_single_medication self med ings)
              \<and> medication i = med \<and> ingredient i = item
              \<and> interaction_type i = ''caution''
              \<and> severity i = one_level_below (record_severity d)))
   \<and> (j \<in> set (check_single_medication self med ings) \<and> interaction_type j = ''avoid''
     \<longrightarrow> (\<exists>n' d'. (n', d') \<in> set (known_interactions self)
              \<and> medication_resolves n' (strip (lower med))
              \<and> ingredient j \<in> set (avoid d') \<and> ingredient_contains ings (ingredient j)
              \<and> severity j = record_severity d'))
   \<and> (j \<in> set (check_single_medication self med ings) \<and> interaction_type j = ''caution''
     \<longrightarrow> (\<exists>n' d'. (n', d') \<in> set (known_interactions self)
              \<and> medication_resolves n' (strip (lower med))
              \<and> ingredient j \<in> set (caution d') \<and> ingredient_contains ings (ingredient j)
              \<and> severity j = one_level_below (record_severity d')))
   \<and> one_level_below ''high'' = ''moderate''
   \<and> one_level_below ''moderate'' = ''low''
   \<and> one_level_below ''low'' = ''low''"
proof (intro conjI impI)
  assume a: "(n, d) \<in> set (known_interactions self) \<and> medication_resolves n (strip (lower med))
      \<and> item \<in> set (avoid d) \<and> ingredient_contains ings item"
  then have "avoid_interaction med d item \<in> set (check_single_medication self med ings)"
    by (blast intro: single_medication_contains_record record_interactions_avoid)
  then show "\<exists>i. i \<in> set (check_single_medication self med ings)
              \<and> medication i = med \<and> ingredient i = item
              \<and> interaction_type i = ''avoid'' \<and> severity i = record_severity d"
    by (intro exI [of _ "avoid_interaction med d item"]) (simp add: avoid_interaction_fields)
next
  assume a: "(n, d) \<in> set (known_interactions self) \<and> medication_resolves n (strip (lower med))
      \<and> item \<in> set (caution d) \<and> ingredient_contains ings item"
  then have "caution_interaction med d item \<in> set (check_single_medication self med ings)"
    by (blast intro: single_medication_contains_record record_interactions_caution)
  then show "\<exists>i. i \<in> set (check_single_medication self med ings)
              \<and> medication i = med \<and> ingredient i = item
              \<and> interaction_type i = ''caution''
              \<and> severity i = one_level_below (record_severity d)"
    by (intro exI [of _ "caution_interaction med d item"])
       (simp add: caution_interaction_fields)
next
  assume "j \<in> set (check_single_medication self med ings) \<and> interaction_type j = ''avoid''"
  then show "\<exists>n' d'. (n', d') \<in> set (known_interactions self)
              \<and> medication_resolves n' (strip (lower med))
              \<and> ingredient j \<in> set (avoid d') \<and> ingredient_contains ings (ingredient j)
              \<and> severity j = record_severity d'"
    by (simp add: avoid_kind_origin)
next
  assume "j \<in> set (check_single_medication self med ings) \<and> interaction_type j = ''caution''"
  then show "\<exists>n' d'. (n', d') \<in> set (known_interactions self)
              \<and> medication_resolves n' (strip (lower med))
              \<and> ingredient j \<in> set (caution d') \<and> ingredient_contains ings (ingredient j)
              \<and> severity j = one_level_below (record_severity d')"
    by (simp add: caution_kind_origin)
qed (simp_all add: one_level_below_def)


text \<open>The facts about \<open>warfarin\<close> that the witness below rests on.\<close>

lemma warfarin_facts:
  "(''warfarin'', warfarin_data) \<in> set (known_interactions MedicationChecker_init)"
  "medication_resolves ''warfarin'' (strip (lower ''warfarin''))"
  "''spinach'' \<in> set (avoid warfarin_data)"
  "ingredient_contains [''spinach'', ''red wine''] ''spinach''"
  "''alcohol'' \<in> set (caution warfarin_data)"
  "ingredient_contains [''spinach'', ''red wine''] ''alcohol''"
  "record_severity warfarin_data = ''high''"
  by code_simp+

lemma warfarin_reported:
  "avoid_interaction ''warfarin'' warfarin_data ''spinach''
     \<in> set (check_single_medication MedicationChecker_init ''warfarin'' [''spinach'', ''red wine''])"
  "caution_interaction ''warfarin'' warfarin_data ''alcohol''
     \<in> set (check_single_medication MedicationChecker_init ''warfarin'' [''spinach'', ''red wine''])"
  by code_simp+

text \<open>
  Witness for C8: for the medication \<open>warfarin\<close> (severity \<open>high\<close>) and the ingredients
  \<open>spinach\<close> and \<open>red wine\<close>, the avoid term \<open>spinach\<close> is reported with severity \<open>high\<close> and
  the caution term \<open>alcohol\<close> with severity \<open>moderate\<close>.
\<close>

theorem avoid_and_caution_severity_witness:
  "(\<exists>i. i \<in> set (check_single_medication MedicationChecker_init ''warfarin''
                    [''spinach'', ''red wine''])
        \<and> medication i = ''warfarin'' \<and> ingredient i = ''spinach''
        \<and> interaction_type i = ''avoid'' \<and> severity i = ''high'')
   \<and> (\<exists>i. i \<in> set (check_single_medication MedicationChecker_init ''warfarin''
                      [''spinach'', ''red wine''])
          \<and> medication i = ''warfarin'' \<and> ingredient i = ''alcohol''
          \<and> interaction_type i = ''caution'' \<and> severity i = ''moderate'')
   \<and> (\<exists>n' d'. (n', d') \<in> set (known_interactions MedicationChecker_init)
          \<and> medication_resolves n' (strip (lower ''warfarin''))
          \<and> ''spinach'' \<in> set (avoid d') \<and> record_severity d' = ''high'')
   \<and> (\<exists>n' d'. (n', d') \<in> set (known_interactions MedicationChecker_init)
          \<and> medication_resolves n' (strip (lower ''warfarin''))
          \<and> ''alcohol'' \<in> set (caution d') \<and> one_level_below (record_severity d') = ''moderate'')"
proof -
  note inst = avoid_and_caution_severity
    [where self = MedicationChecker_init and med = "''warfarin''"
       and ings = "[''spinach'', ''red wine'']" and n = "''warfarin''" and d = warfarin_data]
  have lv: "one_level_below ''high'' = ''moderate''"
    by (simp add: one_level_below_def)
  from inst [where item = "''spinach''"
              and j = "avoid_interaction ''warfarin'' warfarin_data ''spinach''"]
       warfarin_facts
  have c1: "\<exists>i. i \<in> set (check_single_medication MedicationChecker_init ''warfarin''
                    [''spinach'', ''red wine''])
        \<and> medication i = ''warfarin'' \<and> ingredient i = ''spinach''
        \<and> interaction_type i = ''avoid'' \<and> severity i = ''high''"
    by metis
  from inst [where item = "''alcohol''"
              and j = "caution_interaction ''warfarin'' warfarin_data ''alcohol''"]
       warfarin_facts lv
  have c2: "\<exists>i. i \<in> set (check_single_medication MedicationChecker_init ''warfarin''
                      [''spinach'', ''red wine''])
          \<and> medication i = ''warfarin'' \<and> ingredient i = ''alcohol''
          \<and> interaction_type i = ''caution'' \<and> severity i = ''moderate''"
    by metis
  from inst [where item = "''spinach''"
              and j = "avoid_interaction ''warfarin'' warfarin_data ''spinach''"]
       warfarin_reported(1)
  have c3: "\<exists>n' d'. (n', d') \<in> set (known_interactions MedicationChecker_init)
          \<and> medication_resolves n' (strip (lower ''warfarin''))
          \<and> ''spinach'' \<in> set (avoid d') \<and> record_severity d' = ''high''"
    by (simp add: avoid_interaction_fields warfarin_facts(7)) metis
  from inst [where item = "''alcohol''"
              and j = "caution_interaction ''warfarin'' warfarin_data ''alcohol''"]
       warfarin_reported(2)
  have c4: "\<exists>n' d'. (n', d') \<in> set (known_interactions MedicationChecker_init)
          \<and> medication_resolves n' (strip (lower ''warfarin''))
          \<and> ''alcohol'' \<in> set (caution d') \<and> one_level_below (record_severity d') = ''moderate''"
    by (simp add: caution_interaction_fields warfarin_facts(7) lv) metis
  from c1 c2 c3 c4 show ?thesis by blast
qed


subsection \<open>The loops of \<open>check_interactions\<close>\<close>

lemma file_loop_all:
  "all_interactions (foldl (file_interaction med) st xs) = all_interactions st"
  by (induction xs arbitrary: st) (simp_all add: file_interaction_def)

lemma file_loop_high:
  "high_risk_list (foldl (file_interaction med) st xs)
     = high_risk_list st @ filter (\<lambda>i. severity i = ''high'') xs"
  by (induction xs arbitrary: st) (simp_all add: file_interaction_def)

lemma file_loop_moderate:
  "moderate_risk_list (foldl (file_interaction med) st xs)
     = moderate_risk_list st @ filter (\<lambda>i. severity i = ''moderate'') xs"
  by (induction xs arbitrary: st) (simp_all add: file_interaction_def)

lemma file_loop_low:
  "low_risk_list (foldl (file_interaction med) st xs)
     = low_risk_list st
       @ filter (\<lambda>i. severity i \<noteq> ''high'' \<and> severity i \<noteq> ''moderate'') xs"
  by (induction xs arbitrary: st) (simp_all add: file_interaction_def)

lemma file_loop_timing:
  "timing_list (foldl (file_interaction med) st xs) = timing_list st @ timing_entries med xs"
  by (induction xs arbitrary: st)
     (simp_all add: file_interaction_def timing_entries_def split: option.splits)

lemma interaction_loop_body_eq:
  "interaction_loop_body self ings st med
     = foldl (file_interaction med)
         (st\<lparr> all_interactions := all_interactions st
                                    @ check_single_medication self med ings \<rparr>)
         (check_single_medication self med ings)"
  by (simp add: interaction_loop_body_def Let_def)

lemma interaction_loop_all:
  "all_interactions (foldl (interaction_loop_body self ings) st meds)
     = all_interactions st @ concat (map (\<lambda>m. check_single_medication self m ings) meds)"
  by (induction meds arbitrary: st) (simp_all add: interaction_loop_body_eq file_loop_all)

lemma interaction_loop_high:
  "high_risk_list (foldl (interaction_loop_body self ings) st meds)
     = high_risk_list st
       @ filter (\<lambda>i. severity i = ''high'')
           (concat (map (\<lambda>m. check_single_medication self m ings) meds))"
  by (induction meds arbitrary: st) (simp_all add: interaction_loop_body_eq file_loop_high)

lemma interaction_loop_moderate:
  "moderate_risk_list (foldl (interaction_loop_body self ings) st meds)
     = moderate_risk_list st
       @ filter (\<lambda>i. severity i = ''moderate'')
           (concat (map (\<lambda>m. check_single_medication self m ings) meds))"
  by (induction meds arbitrary: st) (simp_all add: interaction_loop_body_eq file_loop_moderate)

lemma interaction_loop_low:
  "low_risk_list (foldl (interaction_loop_body self ings) st meds)
     = low_risk_list st
       @ filter (\<lambda>i. severity i \<noteq> ''high'' \<and> severity i \<noteq> ''moderate'')
           (concat (map (\<lambda>m. check_single_medication self m ings) meds))"
  by (induction meds arbitrary: st) (simp_all add: interaction_loop_body_eq file_loop_low)

lemma interaction_loop_timing:
  "timing_list (foldl (interaction_loop_body self ings) st meds)
     = timing_list st
       @ concat (map (\<lambda>m. timing_entries m (check_single_medication self m ings)) meds)"
  by (induction meds arbitrary: st) (simp_all add: interaction_loop_body_eq file_loop_timing)

lemma severity_partition:
  "length (filter (\<lambda>i. severity i = ''high'') xs)
   + length (filter (\<lambda>i. severity i = ''moderate'') xs)
   + length (filter (\<lambda>i. severity i \<noteq> ''high'' \<and> severity i \<noteq> ''moderate'') xs)
   = length xs"
  by (induction xs) auto

subsection \<open>The result of \<open>check_interactions\<close>\<close>

lemma check_interactions_no_medication:
  "declared_medications user_profile = [] \<Longrightarrow>
   check_interactions self ings user_profile
     = \<lparr> interactions_found = False, total_interactions = 0,
         high_risk_interactions = [], moderate_risk_interactions = [],
         low_risk_interactions = [], timing_recommendations = [],
         detailed_interactions = None \<rparr>"
  by (cases user_profile) (simp_all add: check_interactions_def declared_medications_def)

lemma check_interactions_some_medication:
  "declared_medications user_profile \<noteq> [] \<Longrightarrow>
   check_interactions self ings user_profile
     = (let found = concat (map (\<lambda>m. check_single_medication self m ings)
                              (declared_medications user_profile))
        in \<lparr> interactions_found = (0 < length found), total_interactions = length found,
             high_risk_interactions = filter (\<lambda>i. severity i = ''high'') found,
             moderate_risk_interactions = filter (\<lambda>i. severity i = ''moderate'') found,
             low_risk_interactions =
               filter (\<lambda>i. severity i \<noteq> ''high'' \<and> severity i \<noteq> ''moderate'') found,
             timing_recommendations =
               concat (map (\<lambda>m. timing_entries m (check_single_medication self m ings))
                         (declared_medications user_profile)),
             detailed_interactions = Some found \<rparr>)"
  by (cases user_profile)
     (simp_all add: check_interactions_def declared_medications_def Let_def
        interaction_loop_all interaction_loop_high interaction_loop_moderate
        interaction_loop_low interaction_loop_timing interaction_loop_start_def)

lemma check_interactions_counts:
  "total_interactions (check_interactions self ings user_profile)
     = length (high_risk_interactions (check_interactions self ings user_profile))
       + length (moderate_risk_interactions (check_interactions self ings user_profile))
       + length (low_risk_interactions (check_interactions self ings user_profile))"
proof (cases "declared_medications user_profile = []")
  case True
  then show ?thesis by (simp add: check_interactions_no_medication)
next
  case False
  then show ?thesis
    by (simp add: check_interactions_some_medication Let_def severity_partition)
qed

lemma check_interactions_found:
  "interactions_found (check_interactions self ings user_profile)
     = (0 < total_interactions (check_interactions self ings user_profile))"
proof (cases "declared_medications user_profile = []")
  case True
  then show ?thesis by (simp add: check_interactions_no_medication)
next
  case False
  then show ?thesis by (simp add: check_interactions_some_medication Let_def)
qed

lemma check_interactions_detailed:
  "detailed_interactions (check_interactions self ings user_profile)
     = (if declared_medications user_profile = [] then None
        else Some (concat (map (\<lambda>m. check_single_medication self m ings)
                             (declared_medications user_profile))))"
proof (cases "declared_medications user_profile = []")
  case True
  then show ?thesis by (simp add: check_interactions_no_medication)
next
  case False
  then show ?thesis by (simp add: check_interactions_some_medication Let_def)
qed

lemma check_interactions_total:
  "total_interactions (check_interactions self ings user_profile)
     = length (concat (map (\<lambda>m. check_single_medication self m ings)
                         (declared_medications user_profile)))"
proof (cases "declared_medications user_profile = []")
  case True
  then show ?thesis by (simp add: check_interactions_no_medication)
next
  case False
  then show ?thesis by (simp add: check_interactions_some_medication Let_def)
qed

lemma check_interactions_timing:
  "timing_recommendations (check_interactions self ings user_profile)
     = concat (map (\<lambda>m. timing_entries m (check_single_medication self m ings))
                 (declared_medications user_profile))"
proof (cases "declared_medications user_profile = []")
  case True
  then show ?thesis by (simp add: check_interactions_no_medication)
next
  case False
  then show ?thesis by (simp add: check_interactions_some_medication Let_def)
qed

text \<open>
  Claim C9, as amended.  The record returned by \<open>check_interactions\<close> is consistent in its
  counts: \<open>total_interactions\<close> is the sum of the lengths of the three lists by severity,
  and \<open>interactions_found\<close> holds exactly when it is positive.  For a profile with at
  least one medication the record carries \<open>detailed_interactions\<close>, whose length is
  \<open>total_interactions\<close>; for a missing profile or one without medications the record has
  no such entry, and \<open>total_interactions\<close> is zero.
\<close>

theorem check_interactions_consistent:
  "total_interactions (check_interactions self ings user_profile)
     = length (high_risk_interactions (check_interactions self ings user_profile))
       + length (moderate_risk_interactions (check_interactions self ings user_profile))
       + length (low_risk_interactions (check_interactions self ings user_profile))
   \<and> interactions_found (check_interactions self ings user_profile)
     = (0 < total_interactions (check_interactions self ings user_profile))
   \<and> (case detailed_interactions (check_interactions self ings user_profile) of
        None \<Rightarrow> declared_medications user_profile = []
                 \<and> total_interactions (check_interactions self ings user_profile) = 0
      | Some found \<Rightarrow> declared_medications user_profile \<noteq> []
                 \<and> total_interactions (check_interactions self ings user_profile)
                   = length found)"
proof (intro conjI)
  show "total_interactions (check_interactions self ings user_profile)
     = length (high_risk_interactions (check_interactions self ings user_profile))
       + length (moderate_risk_interactions (check_interactions self ings user_profile))
       + length (low_risk_interactions (check_interactions self ings user_profile))"
    by (rule check_interactions_counts)
  show "interactions_found (check_interactions self ings user_profile)
     = (0 < total_interactions (check_interactions self ings user_profile))"
    by (rule check_interactions_found)
  show "case detailed_interactions (check_interactions self ings user_profile) of
        None \<Rightarrow> declared_medications user_profile = []
                 \<and> total_interactions (check_interactions self ings user_profile) = 0
      | Some found \<Rightarrow> declared_medications user_profile \<noteq> []
                 \<and> total_interactions (check_interactions self ings user_profile)
                   = length found"
    by (simp add: check_interactions_detailed check_interactions_total)
qed

text \<open>
  Counterexample for C9 as stated: for a profile without medications the record has no
  \<open>detailed_interactions\<close> entry whose length could be compared.
\<close>

theorem no_detailed_interactions_without_medication:
  "detailed_interactions
     (check_interactions MedicationChecker_init [''water''] (Some (profile_of [] []))) = None"
  by code_simp

subsection \<open>Timing recommendations\<close>

lemma timing_entries_member:
  assumes "i \<in> set found" and "timing i = Some t" and "t \<noteq> []"
  shows "(med, t) \<in> set (timing_entries med found)"
  using assms by (auto simp: timing_entries_def intro!: bexI [of _ i])

lemma timing_of_match:
  assumes "med \<in> set (declared_medications user_profile)"
    and "(n, d) \<in> set (known_interactions self)"
    and "medication_resolves n (strip (lower med))"
    and "timing_note d = Some t" and "t \<noteq> []"
    and "item \<in> set (avoid d @ caution d)" and "ingredient_contains ings item"
  shows "(med, t) \<in> set (timing_recommendations (check_interactions self ings user_profile))"
proof -
  from assms(6) consider (av) "item \<in> set (avoid d)" | (ca) "item \<in> set (caution d)"
    by auto
  then obtain i where i: "i \<in> set (record_interactions med ings (n, d))" "timing i = Some t"
  proof cases
    case av
    with assms(3,7) have "avoid_interaction med d item \<in> set (record_interactions med ings (n, d))"
      by (simp add: record_interactions_def)
    moreover have "timing (avoid_interaction med d item) = Some t"
      by (simp add: avoid_interaction_def assms(4))
    ultimately show ?thesis by (rule that)
  next
    case ca
    with assms(3,7) have "caution_interaction med d item \<in> set (record_interactions med ings (n, d))"
      by (simp add: record_interactions_def)
    moreover have "timing (caution_interaction med d item) = Some t"
      by (simp add: caution_interaction_def assms(4))
    ultimately show ?thesis by (rule that)
  qed
  from assms(2) i(1) have "i \<in> set (check_single_medication self med ings)"
    by (auto simp: check_single_medication_def)
  with i(2) assms(5)
  have "(med, t) \<in> set (timing_entries med (check_single_medication self med ings))"
    by (simp add: timing_entries_member)
  with assms(1) show ?thesis
    by (auto simp: check_interactions_timing)
qed

lemma no_timing_without_interaction:
  assumes "concat (map (\<lambda>m. check_single_medication self m ings)
                     (declared_medications user_profile)) = []"
  shows "timing_recommendations (check_interactions self ings user_profile) = []"
proof -
  from assms have "\<And>m. m \<in> set (declared_medications user_profile) \<Longrightarrow>
                     check_single_medication self m ings = []"
    by simp
  then show ?thesis
    by (simp add: check_interactions_timing timing_entries_def)
qed

text \<open>
  Claim C4, as amended.  The timing recommendations of \<open>check_interactions\<close> are the timing
  notes carried by the interactions found, each tied to its medication.  So for a
  declared medication that resolves to a record with a timing note, a timing
  recommendation tied to it is included whenever some ingredient matches one of the
  record's avoid or caution terms; an ingredient list for which no interaction is found
  yields no timing recommendation.
\<close>

theorem timing_recommendations_of_interactions:
  "timing_recommendations (check_interactions self ings user_profile)
     = concat (map (\<lambda>m. timing_entries m (check_single_medication self m ings))
                 (declared_medications user_profile))
   \<and> (med \<in> set (declared_medications user_profile)
      \<and> (n, d) \<in> set (known_interactions self)
      \<and> medication_resolves n (strip (lower med))
      \<and> timing_note d = Some t \<and> t \<noteq> []
      \<and> item \<in> set (avoid d @ caution d) \<and> ingredient_contains ings item
     \<longrightarrow> (med, t) \<in> set (timing_recommendations (check_interactions self ings user_profile)))
   \<and> (concat (map (\<lambda>m. check_single_medication self m ings)
                 (declared_medications user_profile)) = []
     \<longrightarrow> timing_recommendations (check_interactions self ings user_profile) = [])"
  using check_interactions_timing timing_of_match no_timing_without_interaction
  by (intro conjI impI) blast+


text \<open>The facts about \<open>levothyroxine\<close> that the witness and the counterexample below rest on.\<close>

lemma levothyroxine_facts:
  "(''levothyroxine'', levothyroxine_data) \<in> set (known_interactions MedicationChecker_init)"
  "medication_resolves ''levothyroxine'' (strip (lower ''Levothyroxine 50mg''))"
  "medication_resolves ''levothyroxine'' (strip (lower ''levothyroxine''))"
  "timing_note levothyroxine_data = Some ''take 30-60 minutes before eating''"
  "''take 30-60 minutes before eating'' \<noteq> []"
  "''coffee'' \<in> set (avoid levothyroxine_data @ caution levothyroxine_data)"
  "ingredient_contains [''coffee''] ''coffee''"
  "''Levothyroxine 50mg''
     \<in> set (declared_medications (Some (profile_of [] [''Levothyroxine 50mg''])))"
  by code_simp+

lemma levothyroxine_water:
  "concat (map (\<lambda>m. check_single_medication MedicationChecker_init m [''water''])
             (declared_medications (Some (profile_of [] [''levothyroxine''])))) = []"
  by code_simp

text \<open>
  Witness for C4: with the ingredient \<open>coffee\<close>, an avoid term of \<open>levothyroxine\<close>, the
  timing note of the record is recommended for the declared medication; with the
  ingredient \<open>water\<close> nothing is found and nothing is recommended.
\<close>

theorem timing_recommendations_of_interactions_witness:
  "(''Levothyroxine 50mg'', ''take 30-60 minutes before eating'')
     \<in> set (timing_recommendations
              (check_interactions MedicationChecker_init [''coffee'']
                 (Some (profile_of [] [''Levothyroxine 50mg'']))))
   \<and> timing_recommendations
        (check_interactions MedicationChecker_init [''water'']
           (Some (profile_of [] [''levothyroxine'']))) = []"
proof -
  from timing_recommendations_of_interactions
         [where self = MedicationChecker_init and ings = "[''coffee'']"
            and user_profile = "Some (profile_of [] [''Levothyroxine 50mg''])"
            and med = "''Levothyroxine 50mg''" and n = "''levothyroxine''"
            and d = levothyroxine_data and t = "''take 30-60 minutes before eating''"
            and item = "''coffee''"]
       levothyroxine_facts
  have c1: "(''Levothyroxine 50mg'', ''take 30-60 minutes before eating'')
     \<in> set (timing_recommendations
              (check_interactions MedicationChecker_init [''coffee'']
                 (Some (profile_of [] [''Levothyroxine 50mg'']))))"
    by blast
  from timing_recommendations_of_interactions
         [where self = MedicationChecker_init and ings = "[''water'']"
            and user_profile = "Some (profile_of [] [''levothyroxine''])"]
       levothyroxine_water
  have c2: "timing_recommendations
        (check_interactions MedicationChecker_init [''water'']
           (Some (profile_of [] [''levothyroxine'']))) = []"
    by blast
  from c1 c2 show ?thesis by blast
qed

text \<open>
  Counterexample for C4 as stated: the declared medication \<open>levothyroxine\<close> resolves to a
  record that carries a timing note, but for the ingredient \<open>water\<close>, which matches none
  of its terms, \<open>check_interactions\<close> returns no timing recommendation.
\<close>

theorem no_timing_without_match:
  "medication_resolves ''levothyroxine'' (strip (lower ''levothyroxine''))
   \<and> map_of (known_interactions MedicationChecker_init) ''levothyroxine''
       = Some levothyroxine_data
   \<and> timing_note levothyroxine_data = Some ''take 30-60 minutes before eating''
   \<and> timing_recommendations
        (check_interactions MedicationChecker_init [''water'']
           (Some (profile_of [] [''levothyroxine'']))) = []"
  by code_simp


end
